theory Spec2Isabelle
  imports Complex_Main
begin

section \<open>Outcomes of a call\<close>

text \<open>
  The Python exceptions the predictor code can raise, and the two early returns of
  \<^verbatim>\<open>predict_next_top_n\<close>: the source returns the message
  \<^verbatim>\<open>"No spins recorded yet."\<close> (here \<open>NoHistory\<close>) and the message
  \<^verbatim>\<open>"No distance data for spin direction '...'."\<close> (here \<open>NoDistanceData\<close>,
  carrying the direction) instead of a report.
\<close>

datatype direction = Clockwise | Anticlockwise

datatype error =
    ValueError
  | IndexError
  | ZeroDivisionError
  | NoHistory
  | NoDistanceData direction

section \<open>Wheel geometry\<close>

text \<open>
  \<^verbatim>\<open>wheel_sequence\<close>, \<^verbatim>\<open>index_on_wheel\<close>, \<^verbatim>\<open>distance_clockwise\<close>,
  \<^verbatim>\<open>distance_anticlockwise\<close> and \<^verbatim>\<open>get_spin_direction\<close> are defined with the
  same text in roulette.py and in testRou.py, so one definition stands for both.
\<close>

definition wheel_sequence :: "int list" where
  "wheel_sequence =
     [0, 32, 15, 19, 4, 21, 2, 25, 17, 34,
      6, 27, 13, 36, 11, 30, 8, 23, 10, 5,
      24, 16, 33, 1, 20, 14, 31, 9, 22, 18,
      29, 7, 28, 12, 35, 3, 26]"

text \<open>Python's \<^verbatim>\<open>list.index\<close>: the first position holding the value, ValueError if none.\<close>

fun list_index :: "'a list \<Rightarrow> 'a \<Rightarrow> nat option" where
  "list_index [] x = None"
| "list_index (y # ys) x = (if y = x then Some 0 else map_option Suc (list_index ys x))"

definition index_on_wheel :: "int \<Rightarrow> error + int" where
  "index_on_wheel number =
     (case list_index wheel_sequence number of
        None \<Rightarrow> Inl ValueError
      | Some i \<Rightarrow> Inr (int i))"

definition distance_clockwise :: "int \<Rightarrow> int \<Rightarrow> error + int" where
  "distance_clockwise from_num to_num =
     (case index_on_wheel from_num of
        Inl e \<Rightarrow> Inl e
      | Inr from_idx \<Rightarrow>
          (case index_on_wheel to_num of
             Inl e \<Rightarrow> Inl e
           | Inr to_idx \<Rightarrow> Inr ((to_idx - from_idx) mod int (length wheel_sequence))))"

definition distance_anticlockwise :: "int \<Rightarrow> int \<Rightarrow> error + int" where
  "distance_anticlockwise from_num to_num =
     (case index_on_wheel from_num of
        Inl e \<Rightarrow> Inl e
      | Inr from_idx \<Rightarrow>
          (case index_on_wheel to_num of
             Inl e \<Rightarrow> Inl e
           | Inr to_idx \<Rightarrow> Inr ((from_idx - to_idx) mod int (length wheel_sequence))))"

definition get_spin_direction :: "nat \<Rightarrow> direction" where
  "get_spin_direction spin_number =
     (if spin_number mod 2 = 1 then Clockwise else Anticlockwise)"

text \<open>
  Python's \<^verbatim>\<open>xs[i]\<close>: a negative index counts from the end, an index out of range
  raises IndexError.
\<close>

definition py_getitem :: "'a list \<Rightarrow> int \<Rightarrow> error + 'a" where
  "py_getitem xs i =
     (if 0 \<le> i \<and> i < int (length xs) then Inr (xs ! nat i)
      else if i < 0 \<and> - int (length xs) \<le> i then Inr (xs ! nat (int (length xs) + i))
      else Inl IndexError)"

text \<open>Python's true division of two numbers: ZeroDivisionError on a zero divisor.\<close>

definition py_div :: "real \<Rightarrow> real \<Rightarrow> error + real" where
  "py_div count total_counts =
     (if total_counts = 0 then Inl ZeroDivisionError else Inr (count / total_counts))"

section \<open>Colours and zones (testRou.py)\<close>

datatype color = Green | Red | Black | Unknown

definition red_numbers :: "int list" where
  "red_numbers = [1,3,5,7,9,12,14,16,18,19,21,23,25,27,30,32,34,36]"

definition black_numbers :: "int list" where
  "black_numbers = [2,4,6,8,10,11,13,15,17,20,22,24,26,28,29,31,33,35]"

definition get_color :: "int \<Rightarrow> color" where
  "get_color number =
     (if number = 0 then Green
      else if number \<in> set red_numbers then Red
      else if number \<in> set black_numbers then Black
      else Unknown)"

definition wheel_zones :: "int list list" where
  "wheel_zones =
     [[0, 32, 15, 19, 4],
      [21, 2, 25, 17, 34],
      [6, 27, 13, 36, 11],
      [30, 8, 23, 10, 5],
      [24, 16, 33, 1, 20],
      [14, 31, 9, 22, 18],
      [29, 7, 28, 12, 35],
      [3, 26]]"

text \<open>The loop of \<^verbatim>\<open>find_zone\<close> over \<^verbatim>\<open>enumerate(wheel_zones, 1)\<close>.\<close>

fun find_zone_from :: "nat \<Rightarrow> int list list \<Rightarrow> int \<Rightarrow> nat option" where
  "find_zone_from idx [] number = None"
| "find_zone_from idx (zone # rest) number =
     (if number \<in> set zone then Some idx else find_zone_from (Suc idx) rest number)"

definition find_zone :: "int \<Rightarrow> nat option" where
  "find_zone number = find_zone_from 1 wheel_zones number"

section \<open>Counters\<close>

text \<open>
  A \<^verbatim>\<open>collections.Counter\<close> is a dictionary that keeps its keys in insertion order;
  the order decides ties in \<^verbatim>\<open>most_common\<close> and the order of \<^verbatim>\<open>items()\<close>, so a
  counter is an association list, oldest key first. The weights of testRou.py are
  Python floats; they are idealised here as real numbers (the literals \<^verbatim>\<open>0.9\<close> and
  \<^verbatim>\<open>1e-6\<close> as the rationals 9/10 and 1/1000000), so rounding is not modelled. What
  is stated below about a decay pass is the one multiplication and the one comparison the
  code itself makes for each entry. No law is stated for the exact value a weight has
  accumulated over many passes, which in the code depends on the rounding of each step;
  the one run of many passes below, a dealer table that decays away, passes the threshold
  \<^verbatim>\<open>1e-6\<close> with \<open>0.9 ^ 131\<close> more than one percent above it and \<open>0.9 ^ 132\<close> more than
  eight percent below it, far beyond what rounding can move.
  The counts of roulette.py are Python integers.
\<close>

type_synonym ('k, 'w) counter = "('k \<times> 'w) list"

text \<open>\<^verbatim>\<open>c[k]\<close>: the stored value, 0 for a missing key (which is not inserted).\<close>

fun counter_get :: "('k, 'w::zero) counter \<Rightarrow> 'k \<Rightarrow> 'w" where
  "counter_get [] k = 0"
| "counter_get ((k', w) # rest) k = (if k' = k then w else counter_get rest k)"

text \<open>\<^verbatim>\<open>c[k] += 1\<close>: an existing key keeps its place, a new key goes to the end.\<close>

fun counter_incr :: "'k \<Rightarrow> ('k, 'w::{zero,one,plus}) counter \<Rightarrow> ('k, 'w) counter" where
  "counter_incr k [] = [(k, 0 + 1)]"
| "counter_incr k ((k', w) # rest) =
     (if k' = k then (k', w + 1) # rest else (k', w) # counter_incr k rest)"

text \<open>
  \<^verbatim>\<open>c.most_common(n)\<close> is \<^verbatim>\<open>heapq.nlargest(n, c.items(), key=itemgetter(1))\<close>: the
  items sorted by decreasing value, equal values in insertion order, cut to the first
  \<open>n\<close>; no item when \<open>n \<le> 0\<close>.
\<close>

definition most_common :: "int \<Rightarrow> ('k, 'w::{linorder,uminus}) counter \<Rightarrow> ('k \<times> 'w) list" where
  "most_common n c = take (nat n) (sort_key (\<lambda>kv. - snd kv) c)"

text \<open>
  One decay loop of \<^verbatim>\<open>_apply_decay\<close>:
  \<^verbatim>\<open>for k in list(c): c[k] *= decay; if c[k] < 1e-6: del c[k]\<close>.
\<close>

fun decay_counter :: "real \<Rightarrow> ('k, real) counter \<Rightarrow> ('k, real) counter" where
  "decay_counter d [] = []"
| "decay_counter d ((k, w) # rest) =
     (if w * d < 1 / 1000000 then decay_counter d rest
      else (k, w * d) # decay_counter d rest)"

text \<open>
  The loop of \<^verbatim>\<open>_apply_decay\<close> over \<^verbatim>\<open>dealer_zone_weights\<close>: each dealer's counter is
  decayed, and a dealer whose counter became empty is deleted from the dictionary.
\<close>

fun decay_dealers ::
  "real \<Rightarrow> (string \<times> (nat, real) counter) list \<Rightarrow> (string \<times> (nat, real) counter) list" where
  "decay_dealers d [] = []"
| "decay_dealers d ((dealer, c) # rest) =
     (if decay_counter d c = [] then decay_dealers d rest
      else (dealer, decay_counter d c) # decay_dealers d rest)"

text \<open>
  \<^verbatim>\<open>dealer_zone_weights\<close> is a \<^verbatim>\<open>defaultdict(Counter)\<close>: reading a missing key
  inserts an empty counter under it. \<open>dd_getitem\<close> returns the counter read and the
  dictionary after the read.
\<close>

definition dd_getitem ::
  "string \<Rightarrow> (string \<times> ('k, 'w) counter) list
     \<Rightarrow> ('k, 'w) counter \<times> (string \<times> ('k, 'w) counter) list" where
  "dd_getitem dealer dzw =
     (case map_of dzw dealer of
        Some c \<Rightarrow> (c, dzw)
      | None \<Rightarrow> ([], dzw @ [(dealer, [])]))"

text \<open>\<^verbatim>\<open>dealer_zone_weights[dealer][zone] += 1\<close>.\<close>

fun dealer_incr ::
  "string \<Rightarrow> nat \<Rightarrow> (string \<times> (nat, real) counter) list
     \<Rightarrow> (string \<times> (nat, real) counter) list" where
  "dealer_incr dealer zone [] = [(dealer, counter_incr zone [])]"
| "dealer_incr dealer zone ((dealer', c) # rest) =
     (if dealer' = dealer then (dealer', counter_incr zone c) # rest
      else (dealer', c) # dealer_incr dealer zone rest)"

text \<open>\<^verbatim>\<open>deque(maxlen=m).append(x)\<close>: the oldest items are dropped beyond \<open>m\<close>.\<close>

definition deque_append :: "nat \<Rightarrow> 'a list \<Rightarrow> 'a \<Rightarrow> 'a list" where
  "deque_append maxlen xs x = drop (length (xs @ [x]) - maxlen) (xs @ [x])"

section \<open>The predictor of testRou.py\<close>

text \<open>
  The fields of \<^verbatim>\<open>RoulettePredictor\<close>. A dealer is \<open>None\<close> or a string; the dictionary
  \<^verbatim>\<open>distance_freq\<close> has exactly the two keys \<^verbatim>\<open>"clockwise"\<close> and
  \<^verbatim>\<open>"anticlockwise"\<close>, so it is a function of the direction.
\<close>

record predictor =
  spins :: "(int \<times> string option) list"
  max_history :: nat
  decay :: real
  distance_freq :: "direction \<Rightarrow> (int, real) counter"
  number_weights :: "(int, real) counter"
  color_weights :: "(color, real) counter"
  zone_weights :: "(nat, real) counter"
  dealer_zone_weights :: "(string \<times> (nat, real) counter) list"
  spin_history :: "(int \<times> string option) list"

text \<open>\<^verbatim>\<open>__init__(self, max_history=200, decay=0.9)\<close>.\<close>

definition RoulettePredictor :: "nat \<Rightarrow> real \<Rightarrow> predictor" where
  "RoulettePredictor mh dc =
     \<lparr> spins = [], max_history = mh, decay = dc,
       distance_freq = (\<lambda>d. []),
       number_weights = [], color_weights = [], zone_weights = [],
       dealer_zone_weights = [], spin_history = [] \<rparr>"

definition apply_decay :: "predictor \<Rightarrow> predictor" where
  "apply_decay self =
     self\<lparr> distance_freq := (\<lambda>d. decay_counter (decay self) (distance_freq self d)),
           number_weights := decay_counter (decay self) (number_weights self),
           color_weights := decay_counter (decay self) (color_weights self),
           zone_weights := decay_counter (decay self) (zone_weights self),
           dealer_zone_weights := decay_dealers (decay self) (dealer_zone_weights self) \<rparr>"

text \<open>Python's truth value of the \<^verbatim>\<open>dealer\<close> argument: \<open>None\<close> and the empty string are false.\<close>

fun truthy :: "string option \<Rightarrow> bool" where
  "truthy None = False"
| "truthy (Some d) = (d \<noteq> [])"

text \<open>Lines 113 to 119 of \<^verbatim>\<open>add_spin\<close>: the history, the number and the colour.\<close>

definition record_number :: "predictor \<Rightarrow> int \<Rightarrow> string option \<Rightarrow> predictor" where
  "record_number self number dealer =
     self\<lparr> spins := spins self @ [(number, dealer)],
           spin_history := deque_append (max_history self) (spin_history self) (number, dealer),
           number_weights := counter_incr number (number_weights self),
           color_weights := counter_incr (get_color number) (color_weights self) \<rparr>"

text \<open>Lines 121 to 126: \<^verbatim>\<open>if zone:\<close> and, inside it, \<^verbatim>\<open>if dealer:\<close>.\<close>

definition record_zone :: "predictor \<Rightarrow> int \<Rightarrow> string option \<Rightarrow> predictor" where
  "record_zone self number dealer =
     (case find_zone number of
        None \<Rightarrow> self
      | Some zone \<Rightarrow>
          if zone = 0 then self
          else
            (let self' = self\<lparr> zone_weights := counter_incr zone (zone_weights self) \<rparr>
             in case dealer of
                  None \<Rightarrow> self'
                | Some d \<Rightarrow>
                    if d = [] then self'
                    else self'\<lparr> dealer_zone_weights :=
                                  dealer_incr d zone (dealer_zone_weights self') \<rparr>))"

text \<open>
  Lines 128 to 136: the distance from the previous spin, in the direction of this spin.
  \<^verbatim>\<open>index_on_wheel\<close> raises ValueError for a number that is not on the wheel; the
  updates made before it stay, so the state is returned with the exception.
\<close>

definition record_distance :: "predictor \<Rightarrow> nat \<Rightarrow> int \<Rightarrow> error option \<times> predictor" where
  "record_distance self spin_number number =
     (if length (spins self) > 1 then
        (case py_getitem (spins self) (- 2) of
           Inl e \<Rightarrow> (Some e, self)
         | Inr (prev_num, prev_dealer) \<Rightarrow>
             (let direction = get_spin_direction spin_number
              in case (if direction = Clockwise then distance_clockwise prev_num number
                       else distance_anticlockwise prev_num number) of
                   Inl e \<Rightarrow> (Some e, self)
                 | Inr distance \<Rightarrow>
                     (None, self\<lparr> distance_freq := (distance_freq self)
                                      (direction := counter_incr distance (distance_freq self direction)) \<rparr>)))
      else (None, self))"

text \<open>
  \<^verbatim>\<open>add_spin(self, number, dealer=None)\<close>: the exception raised, if any, and the state
  the call leaves.
\<close>

definition add_spin :: "predictor \<Rightarrow> int \<Rightarrow> string option \<Rightarrow> error option \<times> predictor" where
  "add_spin self number dealer =
     (let decayed = apply_decay self;
          spin_number = length (spins decayed) + 1
      in record_distance
           (record_zone (record_number decayed number dealer) number dealer)
           spin_number number)"

text \<open>
  The report of \<^verbatim>\<open>predict_next_top_n\<close>. The source formats it as text; the record holds
  the values that are formatted: the spin number and direction of the header, one
  \<open>(number, distance, probability)\<close> per distance line, one
  \<open>(key, weight, probability)\<close> per hot number and hot zone line, one
  \<open>(colour, probability)\<close> per colour line, and for a dealer that is not \<open>None\<close> the
  dealer with its zone lines (no line stands for "No data for this dealer yet.").
\<close>

record report =
  report_spin_number :: nat
  report_direction :: direction
  report_distances :: "(int \<times> int \<times> real) list"
  report_numbers :: "(int \<times> real \<times> real) list"
  report_colors :: "(color \<times> real) list"
  report_zones :: "(nat \<times> real \<times> real) list"
  report_dealer :: "(string \<times> (nat \<times> real \<times> real) list) option"

text \<open>The loop over \<^verbatim>\<open>common_distances\<close> (lines 155 to 162).\<close>

fun predict_distances ::
  "direction \<Rightarrow> int \<Rightarrow> real \<Rightarrow> (int \<times> real) list \<Rightarrow> error + (int \<times> int \<times> real) list" where
  "predict_distances direction last_index total_counts [] = Inr []"
| "predict_distances direction last_index total_counts ((distance, count) # rest) =
     (case py_div count total_counts of
        Inl e \<Rightarrow> Inl e
      | Inr prob \<Rightarrow>
          (case py_getitem wheel_sequence
                  (if direction = Clockwise
                   then (last_index + distance) mod int (length wheel_sequence)
                   else (last_index - distance) mod int (length wheel_sequence)) of
             Inl e \<Rightarrow> Inl e
           | Inr predicted_number \<Rightarrow>
               (case predict_distances direction last_index total_counts rest of
                  Inl e \<Rightarrow> Inl e
                | Inr ps \<Rightarrow> Inr ((predicted_number, distance, prob) # ps))))"

text \<open>Lines 148 to 162: the distance-based predictions.\<close>

definition distance_predictions ::
  "(int \<times> string option) list \<Rightarrow> (int, real) counter \<Rightarrow> direction \<Rightarrow> int
     \<Rightarrow> error + (int \<times> int \<times> real) list" where
  "distance_predictions history freq direction n =
     (let total_dist_counts = sum_list (map snd freq)
      in case py_getitem history (- 1) of
           Inl e \<Rightarrow> Inl e
         | Inr (last_number, last_dealer) \<Rightarrow>
             (case index_on_wheel last_number of
                Inl e \<Rightarrow> Inl e
              | Inr last_index \<Rightarrow>
                  predict_distances direction last_index total_dist_counts (most_common n freq)))"

text \<open>\<^verbatim>\<open>[(key, count / total) for key, count in items]\<close>.\<close>

fun with_prob :: "real \<Rightarrow> ('k \<times> real) list \<Rightarrow> error + ('k \<times> real) list" where
  "with_prob total_counts [] = Inr []"
| "with_prob total_counts ((k, count) # rest) =
     (case py_div count total_counts of
        Inl e \<Rightarrow> Inl e
      | Inr prob \<Rightarrow>
          (case with_prob total_counts rest of
             Inl e \<Rightarrow> Inl e
           | Inr ps \<Rightarrow> Inr ((k, prob) # ps)))"

text \<open>An output loop that prints the weight and \<^verbatim>\<open>count / total\<close> of each item.\<close>

fun with_count_prob :: "real \<Rightarrow> ('k \<times> real) list \<Rightarrow> error + ('k \<times> real \<times> real) list" where
  "with_count_prob total_counts [] = Inr []"
| "with_count_prob total_counts ((k, count) # rest) =
     (case py_div count total_counts of
        Inl e \<Rightarrow> Inl e
      | Inr prob \<Rightarrow>
          (case with_count_prob total_counts rest of
             Inl e \<Rightarrow> Inl e
           | Inr ps \<Rightarrow> Inr ((k, count, prob) # ps)))"

text \<open>
  Lines 176 to 182: \<^verbatim>\<open>dealer_zone_info\<close>, with the dictionary after the two reads of
  \<^verbatim>\<open>self.dealer_zone_weights[dealer]\<close>.
\<close>

definition dealer_zone_lookup ::
  "string option \<Rightarrow> (string \<times> (nat, real) counter) list
     \<Rightarrow> (nat \<times> real) list option \<times> (string \<times> (nat, real) counter) list" where
  "dealer_zone_lookup dealer dzw =
     (case dealer of
        None \<Rightarrow> (None, dzw)
      | Some d \<Rightarrow>
          if d \<noteq> [] \<and> d \<in> set (map fst dzw) then
            (let (c1, dzw1) = dd_getitem d dzw;
                 dealer_total = sum_list (map snd c1);
                 (c2, dzw2) = dd_getitem d dzw1
             in (Some (most_common 5 c2), dzw2))
          else if d \<noteq> [] then (Some [], dzw)
          else (None, dzw))"

text \<open>Lines 205 to 212: the zone lines of a dealer that is not \<open>None\<close>.\<close>

definition dealer_lines ::
  "string option \<Rightarrow> (nat \<times> real) list option
     \<Rightarrow> error + (string \<times> (nat \<times> real \<times> real) list) option" where
  "dealer_lines dealer dealer_zone_info =
     (case dealer of
        None \<Rightarrow> Inr None
      | Some d \<Rightarrow>
          (case dealer_zone_info of
             None \<Rightarrow> Inr (Some (d, []))
           | Some info \<Rightarrow>
               (case with_count_prob (sum_list (map snd info)) info of
                  Inl e \<Rightarrow> Inl e
                | Inr ls \<Rightarrow> Inr (Some (d, ls)))))"

text \<open>
  \<^verbatim>\<open>predict_next_top_n(self, n=15, dealer=None)\<close>: the report, a message or an
  exception, and the state the call leaves.
\<close>

definition predict_next_top_n ::
  "predictor \<Rightarrow> int \<Rightarrow> string option \<Rightarrow> (error + report) \<times> predictor" where
  "predict_next_top_n self n dealer =
     (let spin_number = length (spins self) + 1;
          direction = get_spin_direction spin_number
      in if spins self = [] then (Inl NoHistory, self)
         else if distance_freq self direction = [] then (Inl (NoDistanceData direction), self)
         else
           (case distance_predictions (spins self) (distance_freq self direction) direction n of
              Inl e \<Rightarrow> (Inl e, self)
            | Inr dist_predictions \<Rightarrow>
                (let hot_numbers_total = sum_list (map snd (number_weights self));
                     hot_numbers = most_common 10 (number_weights self);
                     total_colors = sum_list (map snd (color_weights self))
                 in case with_prob total_colors (color_weights self) of
                      Inl e \<Rightarrow> (Inl e, self)
                    | Inr hot_colors \<Rightarrow>
                        (let total_zones = sum_list (map snd (zone_weights self));
                             hot_zones = most_common 5 (zone_weights self);
                             (dealer_zone_info, dzw) =
                                dealer_zone_lookup dealer (dealer_zone_weights self);
                             self' = self\<lparr> dealer_zone_weights := dzw \<rparr>
                         in case with_count_prob hot_numbers_total hot_numbers of
                              Inl e \<Rightarrow> (Inl e, self')
                            | Inr number_lines \<Rightarrow>
                                (case with_count_prob total_zones hot_zones of
                                   Inl e \<Rightarrow> (Inl e, self')
                                 | Inr zone_lines \<Rightarrow>
                                     (case dealer_lines dealer dealer_zone_info of
                                        Inl e \<Rightarrow> (Inl e, self')
                                      | Inr dl \<Rightarrow>
                                          (Inr \<lparr> report_spin_number = spin_number,
                                                 report_direction = direction,
                                                 report_distances = dist_predictions,
                                                 report_numbers = number_lines,
                                                 report_colors = hot_colors,
                                                 report_zones = zone_lines,
                                                 report_dealer = dl \<rparr>,
                                           self')))))))"

section \<open>The predictor of roulette.py\<close>

text \<open>
  roulette.py has its own, smaller \<^verbatim>\<open>RoulettePredictor\<close>: the spins are plain numbers,
  the distance counters hold integer counts and nothing decays. Its definitions carry the
  module's name as a prefix.
\<close>

record roulette_predictor =
  roulette_spins :: "int list"
  roulette_distance_freq :: "direction \<Rightarrow> (int, int) counter"

definition roulette_RoulettePredictor :: "roulette_predictor" where
  "roulette_RoulettePredictor =
     \<lparr> roulette_spins = [], roulette_distance_freq = (\<lambda>d. []) \<rparr>"

definition roulette_add_spin ::
  "roulette_predictor \<Rightarrow> int \<Rightarrow> error option \<times> roulette_predictor" where
  "roulette_add_spin self number =
     (let spin_number = length (roulette_spins self) + 1;
          self' = self\<lparr> roulette_spins := roulette_spins self @ [number] \<rparr>
      in if length (roulette_spins self') > 1 then
           (case py_getitem (roulette_spins self') (- 2) of
              Inl e \<Rightarrow> (Some e, self')
            | Inr prev_num \<Rightarrow>
                (let direction = get_spin_direction spin_number
                 in case (if direction = Clockwise then distance_clockwise prev_num number
                          else distance_anticlockwise prev_num number) of
                      Inl e \<Rightarrow> (Some e, self')
                    | Inr distance \<Rightarrow>
                        (None, self'\<lparr> roulette_distance_freq := (roulette_distance_freq self')
                                          (direction := counter_incr distance
                                             (roulette_distance_freq self' direction)) \<rparr>)))
         else (None, self'))"

record roulette_report =
  roulette_report_spin_number :: nat
  roulette_report_direction :: direction
  roulette_report_n :: int
  roulette_report_results :: "(int \<times> int \<times> real) list"

definition roulette_predict_next_top_n ::
  "roulette_predictor \<Rightarrow> int \<Rightarrow> (error + roulette_report) \<times> roulette_predictor" where
  "roulette_predict_next_top_n self n =
     (let spin_number = length (roulette_spins self) + 1;
          direction = get_spin_direction spin_number
      in if roulette_spins self = [] then (Inl NoHistory, self)
         else if roulette_distance_freq self direction = []
         then (Inl (NoDistanceData direction), self)
         else
           (let total_counts = sum_list (map snd (roulette_distance_freq self direction))
            in case py_getitem (roulette_spins self) (- 1) of
                 Inl e \<Rightarrow> (Inl e, self)
               | Inr last_number \<Rightarrow>
                   (case index_on_wheel last_number of
                      Inl e \<Rightarrow> (Inl e, self)
                    | Inr last_index \<Rightarrow>
                        (case predict_distances direction last_index (real_of_int total_counts)
                                (map (\<lambda>(distance, count). (distance, real_of_int count))
                                   (most_common n (roulette_distance_freq self direction))) of
                           Inl e \<Rightarrow> (Inl e, self)
                         | Inr results \<Rightarrow>
                             (Inr \<lparr> roulette_report_spin_number = spin_number,
                                    roulette_report_direction = direction,
                                    roulette_report_n = n,
                                    roulette_report_results = results \<rparr>,
                              self)))))"

section \<open>Sequences of calls\<close>

text \<open>
  A caller that records one spin after the other, as the command loops of both modules
  do; the state after the calls, whatever each call returned or raised.
\<close>

fun add_spins :: "predictor \<Rightarrow> (int \<times> string option) list \<Rightarrow> predictor" where
  "add_spins self [] = self"
| "add_spins self ((number, dealer) # rest) = add_spins (snd (add_spin self number dealer)) rest"

fun roulette_add_spins :: "roulette_predictor \<Rightarrow> int list \<Rightarrow> roulette_predictor" where
  "roulette_add_spins self [] = self"
| "roulette_add_spins self (number # rest) =
     roulette_add_spins (snd (roulette_add_spin self number)) rest"

section \<open>The states of the two worked scenarios\<close>

text \<open>
  The states a predictor with the default history bound and decay factor 1.0 goes
  through when the spins 0, 32 and 15 are recorded with no dealer. They are shown below
  to be what \<open>add_spin\<close> computes.
\<close>

definition after_0 :: predictor where
  "after_0 =
     \<lparr> spins = [(0, None)], max_history = 200, decay = 1,
       distance_freq = (\<lambda>d. []),
       number_weights = [(0, 1)], color_weights = [(Green, 1)], zone_weights = [(1, 1)],
       dealer_zone_weights = [], spin_history = [(0, None)] \<rparr>"

definition after_0_32 :: predictor where
  "after_0_32 =
     \<lparr> spins = [(0, None), (32, None)], max_history = 200, decay = 1,
       distance_freq = (\<lambda>d. [])(Anticlockwise := [(36, 1)]),
       number_weights = [(0, 1), (32, 1)], color_weights = [(Green, 1), (Red, 1)],
       zone_weights = [(1, 2)],
       dealer_zone_weights = [], spin_history = [(0, None), (32, None)] \<rparr>"

definition after_0_32_15 :: predictor where
  "after_0_32_15 =
     \<lparr> spins = [(0, None), (32, None), (15, None)], max_history = 200, decay = 1,
       distance_freq = (\<lambda>d. [])(Anticlockwise := [(36, 1)], Clockwise := [(1, 1)]),
       number_weights = [(0, 1), (32, 1), (15, 1)],
       color_weights = [(Green, 1), (Red, 1), (Black, 1)],
       zone_weights = [(1, 3)],
       dealer_zone_weights = [],
       spin_history = [(0, None), (32, None), (15, None)] \<rparr>"

section \<open>What a decay pass does to a table\<close>

text \<open>
  The relation between a table before and after one decay pass with factor \<open>d\<close>, as
  the specification states it: every entry of the table after the pass comes from an entry
  before it with the weight multiplied by \<open>d\<close> and is not below \<^verbatim>\<open>1e-6\<close>, and every
  entry whose multiplied weight is not below \<^verbatim>\<open>1e-6\<close> is still there.
\<close>

definition decayed_from :: "real \<Rightarrow> ('k, real) counter \<Rightarrow> ('k, real) counter \<Rightarrow> bool" where
  "decayed_from d before after \<longleftrightarrow>
     (\<forall>(k, w') \<in> set after. (\<exists>w. (k, w) \<in> set before \<and> w' = w * d) \<and> \<not> w' < 1 / 1000000)
     \<and> (\<forall>(k, w) \<in> set before. \<not> w * d < 1 / 1000000 \<longrightarrow> (k, w * d) \<in> set after)"

text \<open>A state with a weight that one more decay step prunes in every table.\<close>

definition decay_example :: predictor where
  "decay_example =
     \<lparr> spins = [(17, Some ''A''), (3, Some ''B'')], max_history = 200, decay = 9 / 10,
       distance_freq = (\<lambda>d. [])(Anticlockwise := [(2, 1)]),
       number_weights = [(17, 1 / 1000000), (3, 1)],
       color_weights = [(Black, 1 / 1000000), (Red, 1)],
       zone_weights = [(2, 1 / 1000000), (8, 1)],
       dealer_zone_weights = [(''A'', [(2, 1 / 1000000)]), (''B'', [(8, 1)])],
       spin_history = [(17, Some ''A''), (3, Some ''B'')] \<rparr>"

section \<open>Facts about the wheel\<close>

lemma list_index_Some:
  "list_index xs x = Some i \<Longrightarrow> i < length xs \<and> xs ! i = x"
  by (induction xs arbitrary: i) (auto split: if_splits)

lemma list_index_member:
  "x \<in> set xs \<Longrightarrow> \<exists>i. list_index xs x = Some i"
  by (induction xs) auto

lemma length_wheel_sequence: "length wheel_sequence = 37"
  by (simp add: wheel_sequence_def)

lemma position_on_wheel:
  assumes "0 \<le> x" and "x \<le> 36"
  shows "x \<in> set wheel_sequence"
proof -
  from assms have "x \<in> {0..36}" by simp
  also have "{0..36::int} = set [0..36]" by simp
  also have "set [0..36::int] \<subseteq> set wheel_sequence"
    unfolding wheel_sequence_def by code_simp
  finally show ?thesis .
qed

lemma index_on_wheel_valid:
  assumes "0 \<le> x" and "x \<le> 36"
  shows "\<exists>i. index_on_wheel x = Inr i \<and> 0 \<le> i \<and> i < 37"
proof -
  from position_on_wheel [OF assms] obtain k where k: "list_index wheel_sequence x = Some k"
    using list_index_member by fastforce
  with list_index_Some have "k < length wheel_sequence" by fastforce
  then have "int k < 37" by (simp add: length_wheel_sequence)
  with k show ?thesis by (simp add: index_on_wheel_def)
qed

lemma mod_37_reverse: "(j - i) mod 37 = (37 - (i - j) mod 37) mod (37::int)"
proof -
  have "(j - i) mod 37 = (- (i - j)) mod 37" by simp
  also have "\<dots> = (if (i - j) mod 37 = 0 then 0 else 37 - (i - j) mod 37)"
    by (rule zmod_zminus1_eq_if)
  also have "\<dots> = (37 - (i - j) mod 37) mod 37"
  proof (cases "(i - j) mod 37 = 0")
    case True
    then show ?thesis by simp
  next
    case False
    have "0 \<le> (i - j) mod 37" "(i - j) mod 37 < 37" by simp_all
    with False have "0 \<le> 37 - (i - j) mod 37" "37 - (i - j) mod 37 < 37" by linarith+
    then have "(37 - (i - j) mod 37) mod 37 = 37 - (i - j) mod 37"
      by (rule mod_pos_pos_trivial)
    with False show ?thesis by simp
  qed
  finally show ?thesis .
qed

section \<open>Facts about predictions\<close>

lemma dd_getitem_present:
  "dealer \<in> set (map fst dzw) \<Longrightarrow> snd (dd_getitem dealer dzw) = dzw"
proof -
  assume "dealer \<in> set (map fst dzw)"
  then obtain c where "map_of dzw dealer = Some c"
    by (metis map_of_eq_None_iff not_Some_eq set_map)
  then show ?thesis by (simp add: dd_getitem_def)
qed

lemma dealer_zone_lookup_state: "snd (dealer_zone_lookup dealer dzw) = dzw"
proof (cases dealer)
  case None
  then show ?thesis by (simp add: dealer_zone_lookup_def)
next
  case (Some d)
  show ?thesis
  proof (cases "d \<noteq> [] \<and> d \<in> set (map fst dzw)")
    case True
    then have "snd (dd_getitem d dzw) = dzw" by (simp add: dd_getitem_present)
    with True Some show ?thesis
      by (auto simp add: dealer_zone_lookup_def Let_def split: prod.splits)
  next
    case False
    with Some show ?thesis by (auto simp add: dealer_zone_lookup_def)
  qed
qed

lemma predict_state: "snd (predict_next_top_n self n dealer) = self"
proof -
  obtain info dzw where l: "dealer_zone_lookup dealer (dealer_zone_weights self) = (info, dzw)"
    by (cases "dealer_zone_lookup dealer (dealer_zone_weights self)") 
  with dealer_zone_lookup_state [of dealer "dealer_zone_weights self"]
  have "dzw = dealer_zone_weights self" by simp
  with l show ?thesis
    by (simp add: predict_next_top_n_def Let_def split: sum.splits)
qed

lemma roulette_predict_state: "snd (roulette_predict_next_top_n self n) = self"
  by (simp add: roulette_predict_next_top_n_def Let_def split: sum.splits)

lemma wheel_sequence_range: "x \<in> set wheel_sequence \<Longrightarrow> 0 \<le> x \<and> x \<le> 36"
  by (auto simp: wheel_sequence_def)

lemma wheel_lookup:
  "py_getitem wheel_sequence (x mod int (length wheel_sequence))
     = Inr (wheel_sequence ! nat (x mod 37))"
  by (simp add: py_getitem_def length_wheel_sequence)

lemma wheel_nth_range: "0 \<le> wheel_sequence ! nat (x mod 37) \<and> wheel_sequence ! nat (x mod 37) \<le> 36"
proof -
  have "nat (x mod 37) < length wheel_sequence"
    by (simp add: length_wheel_sequence nat_less_iff)
  then have "wheel_sequence ! nat (x mod 37) \<in> set wheel_sequence" by (rule nth_mem)
  then show ?thesis by (rule wheel_sequence_range)
qed

lemma predict_distances_valid:
  "predict_distances direction last_index tot items = Inr ps \<Longrightarrow>
     length ps = length items \<and> (\<forall>(num, d, p) \<in> set ps. 0 \<le> num \<and> num \<le> 36)"
proof (induction items arbitrary: ps)
  case Nil
  then show ?case by simp
next
  case (Cons it items)
  obtain d c where it: "it = (d, c)" by (cases it)
  from Cons.prems it show ?case
    using Cons.IH wheel_nth_range
    by (auto simp add: wheel_lookup split: sum.splits if_splits)
qed

lemma predict_distances_no_IndexError:
  "predict_distances direction last_index tot items \<noteq> Inl IndexError"
proof (induction items)
  case Nil
  then show ?case by simp
next
  case (Cons it items)
  obtain d c where it: "it = (d, c)" by (cases it)
  from Cons it show ?case
    by (auto simp add: wheel_lookup py_div_def split: sum.splits if_splits)
qed

lemma length_most_common: "length (most_common n c) \<le> nat n"
  by (simp add: most_common_def)

lemma with_prob_no_IndexError: "with_prob tot items \<noteq> Inl IndexError"
proof (induction items)
  case Nil
  then show ?case by simp
next
  case (Cons it items)
  obtain k c where "it = (k, c)" by (cases it)
  with Cons show ?case by (auto simp add: py_div_def split: sum.splits if_splits)
qed

lemma with_count_prob_no_IndexError: "with_count_prob tot items \<noteq> Inl IndexError"
proof (induction items)
  case Nil
  then show ?case by simp
next
  case (Cons it items)
  obtain k c where "it = (k, c)" by (cases it)
  with Cons show ?case by (auto simp add: py_div_def split: sum.splits if_splits)
qed

lemma dealer_lines_no_IndexError: "dealer_lines dealer info \<noteq> Inl IndexError"
  by (auto simp add: dealer_lines_def with_count_prob_no_IndexError
      split: option.splits sum.splits)

lemma last_item: "xs \<noteq> [] \<Longrightarrow> py_getitem xs (- 1) = Inr (last xs)"
proof -
  assume ne: "xs \<noteq> []"
  then have pos: "0 < length xs" by simp
  then have n: "nat (int (length xs) + - 1) = length xs - 1" by simp
  from pos have inside: "- int (length xs) \<le> - 1" by linarith
  from ne have "xs ! (length xs - 1) = last xs" by (simp add: last_conv_nth)
  with n inside show ?thesis by (simp add: py_getitem_def)
qed

lemma distance_predictions_no_IndexError:
  "history \<noteq> [] \<Longrightarrow> distance_predictions history freq direction n \<noteq> Inl IndexError"
  by (auto simp add: distance_predictions_def Let_def last_item index_on_wheel_def
      predict_distances_no_IndexError split: sum.splits prod.splits option.splits)

lemma predict_no_IndexError: "fst (predict_next_top_n self n dealer) \<noteq> Inl IndexError"
proof (cases "spins self = []")
  case True
  then show ?thesis by (simp add: predict_next_top_n_def Let_def)
next
  case False
  note dp = distance_predictions_no_IndexError [OF False]
  show ?thesis
    by (auto simp add: predict_next_top_n_def Let_def dp with_prob_no_IndexError
        with_count_prob_no_IndexError dealer_lines_no_IndexError
        split: sum.splits prod.splits)
qed

lemma roulette_predict_no_IndexError:
  "fst (roulette_predict_next_top_n self n) \<noteq> Inl IndexError"
proof (cases "roulette_spins self = []")
  case True
  then show ?thesis by (simp add: roulette_predict_next_top_n_def Let_def)
next
  case False
  then show ?thesis
    by (auto simp add: roulette_predict_next_top_n_def Let_def last_item index_on_wheel_def
        predict_distances_no_IndexError split: sum.splits option.splits)
qed

lemma distance_predictions_valid:
  assumes "distance_predictions history freq direction n = Inr ps"
  shows "length ps \<le> nat n \<and> (\<forall>(num, d, p) \<in> set ps. 0 \<le> num \<and> num \<le> 36)"
proof -
  from assms obtain li tot where
    "predict_distances direction li tot (most_common n freq) = Inr ps"
    by (auto simp add: distance_predictions_def Let_def split: sum.splits prod.splits)
  from predict_distances_valid [OF this] length_most_common [of n freq]
  show ?thesis by simp
qed

section \<open>Facts about decay\<close>

lemma in_decay_counter:
  "(k, w') \<in> set (decay_counter d c)
     \<longleftrightarrow> (\<exists>w. (k, w) \<in> set c \<and> w' = w * d \<and> \<not> w * d < 1 / 1000000)"
proof (induction c)
  case Nil
  then show ?case by simp
next
  case (Cons kw c)
  obtain k0 w0 where kw: "kw = (k0, w0)" by (cases kw)
  show ?case
  proof (cases "w0 * d < 1 / 1000000")
    case True
    with Cons kw show ?thesis by auto
  next
    case False
    with Cons kw show ?thesis by auto
  qed
qed

lemma decayed_from_decay_counter: "decayed_from d c (decay_counter d c)"
  by (auto simp add: decayed_from_def in_decay_counter)

lemma in_decay_dealers:
  "(dealer, c') \<in> set (decay_dealers d dzw)
     \<longleftrightarrow> (\<exists>c. (dealer, c) \<in> set dzw \<and> c' = decay_counter d c \<and> c' \<noteq> [])"
proof (induction dzw)
  case Nil
  then show ?case by simp
next
  case (Cons dc dzw)
  obtain d0 c0 where dc: "dc = (d0, c0)" by (cases dc)
  show ?case
  proof (cases "decay_counter d c0 = []")
    case True
    with Cons dc show ?thesis by auto
  next
    case False
    with Cons dc show ?thesis by auto
  qed
qed

section \<open>Facts about the dealer tables\<close>

lemma find_zone_from_ge: "find_zone_from idx zones number = Some z \<Longrightarrow> idx \<le> z"
proof (induction zones arbitrary: idx)
  case Nil
  then show ?case by simp
next
  case (Cons zone zones)
  show ?case
  proof (cases "number \<in> set zone")
    case True
    with Cons.prems show ?thesis by simp
  next
    case False
    with Cons.prems have "find_zone_from (Suc idx) zones number = Some z" by simp
    from Cons.IH [OF this] show ?thesis by simp
  qed
qed

lemma find_zone_positive: "find_zone number = Some z \<Longrightarrow> z \<noteq> 0"
  using find_zone_from_ge [of 1 wheel_zones number z] by (simp add: find_zone_def)

lemma record_distance_tables:
  "dealer_zone_weights (snd (record_distance self spin_number number)) = dealer_zone_weights self"
  "number_weights (snd (record_distance self spin_number number)) = number_weights self"
  "decay (snd (record_distance self spin_number number)) = decay self"
  by (simp_all add: record_distance_def Let_def split: sum.splits prod.splits)

lemma add_spin_dealer_tables:
  "dealer_zone_weights (snd (add_spin self number dealer)) =
     (case find_zone number of
        None \<Rightarrow> decay_dealers (decay self) (dealer_zone_weights self)
      | Some zone \<Rightarrow>
          (case dealer of
             None \<Rightarrow> decay_dealers (decay self) (dealer_zone_weights self)
           | Some d \<Rightarrow>
               if d = [] then decay_dealers (decay self) (dealer_zone_weights self)
               else dealer_incr d zone (decay_dealers (decay self) (dealer_zone_weights self))))"
proof (cases "find_zone number")
  case None
  then show ?thesis
    by (simp add: add_spin_def Let_def record_distance_tables record_zone_def
        record_number_def apply_decay_def)
next
  case (Some zone)
  with find_zone_positive have "zone \<noteq> 0" by simp
  with Some show ?thesis
    by (simp add: add_spin_def Let_def record_distance_tables record_zone_def
        record_number_def apply_decay_def split: option.splits)
qed

lemma add_spin_decay: "decay (snd (add_spin self number dealer)) = decay self"
  by (simp add: add_spin_def Let_def record_distance_tables record_zone_def
      record_number_def apply_decay_def split: option.splits)

lemma map_of_dealer_incr: "a \<noteq> b \<Longrightarrow> map_of (dealer_incr a zone dzw) b = map_of dzw b"
proof (induction dzw)
  case Nil
  then show ?case by simp
next
  case (Cons dc dzw)
  obtain d0 c0 where "dc = (d0, c0)" by (cases dc)
  with Cons show ?case by simp
qed

lemma keys_dealer_incr: "fst ` set (dealer_incr a zone dzw) = insert a (fst ` set dzw)"
proof (induction dzw)
  case Nil
  then show ?case by simp
next
  case (Cons dc dzw)
  obtain d0 c0 where "dc = (d0, c0)" by (cases dc)
  with Cons show ?case by auto
qed

lemma keys_decay_dealers: "fst ` set (decay_dealers d dzw) \<subseteq> fst ` set dzw"
proof
  fix k
  assume "k \<in> fst ` set (decay_dealers d dzw)"
  then obtain c' where "(k, c') \<in> set (decay_dealers d dzw)" by auto
  then obtain c where "(k, c) \<in> set dzw" unfolding in_decay_dealers by blast
  then show "k \<in> fst ` set dzw" by force
qed

lemma map_of_decay_dealers:
  assumes "distinct (map fst dzw)"
  shows "map_of (decay_dealers d dzw) b =
     (case map_of dzw b of
        None \<Rightarrow> None
      | Some c \<Rightarrow> if decay_counter d c = [] then None else Some (decay_counter d c))"
  using assms
proof (induction dzw)
  case Nil
  then show ?case by simp
next
  case (Cons dc dzw)
  obtain d0 c0 where dc: "dc = (d0, c0)" by (cases dc)
  from Cons.prems dc have fresh: "d0 \<notin> fst ` set dzw" and dist: "distinct (map fst dzw)"
    by auto
  from fresh keys_decay_dealers have "d0 \<notin> fst ` set (decay_dealers d dzw)" by blast
  then have gone: "map_of (decay_dealers d dzw) d0 = None"
    by (simp add: map_of_eq_None_iff)
  show ?case
  proof (cases "b = d0")
    case True
    with dc gone show ?thesis by simp
  next
    case False
    with dc Cons.IH [OF dist] show ?thesis by simp
  qed
qed

lemma decay_counter_one:
  "(\<forall>(k, w) \<in> set c. \<not> w < 1 / 1000000) \<Longrightarrow> decay_counter 1 c = c"
  by (induction c) auto

lemma predict_no_dealer_frame:
  "fst (predict_next_top_n (self\<lparr> dealer_zone_weights := dzw \<rparr>) n None)
     = fst (predict_next_top_n self n None)"
  by (simp add: predict_next_top_n_def Let_def dealer_zone_lookup_def dealer_lines_def
      split: sum.splits)

lemma decay_counter_nonempty:
  "decay_counter d c \<noteq> [] \<longleftrightarrow> (\<exists>zone w. (zone, w) \<in> set c \<and> \<not> w * d < 1 / 1000000)"
proof
  assume "decay_counter d c \<noteq> []"
  then obtain k w' where "(k, w') \<in> set (decay_counter d c)"
    by (cases "decay_counter d c") auto
  then show "\<exists>zone w. (zone, w) \<in> set c \<and> \<not> w * d < 1 / 1000000"
    unfolding in_decay_counter by blast
next
  assume "\<exists>zone w. (zone, w) \<in> set c \<and> \<not> w * d < 1 / 1000000"
  then obtain zone w where "(zone, w) \<in> set c" "\<not> w * d < 1 / 1000000" by blast
  then have "(zone, w * d) \<in> set (decay_counter d c)"
    unfolding in_decay_counter by blast
  then show "decay_counter d c \<noteq> []" by auto
qed

lemma keys_decay_dealers_iff:
  "dealer \<in> fst ` set (decay_dealers d dzw)
     \<longleftrightarrow> (\<exists>c zone w. (dealer, c) \<in> set dzw \<and> (zone, w) \<in> set c \<and> \<not> w * d < 1 / 1000000)"
proof -
  have "dealer \<in> fst ` set (decay_dealers d dzw)
      \<longleftrightarrow> (\<exists>c'. (dealer, c') \<in> set (decay_dealers d dzw))"
    by force
  also have "\<dots> \<longleftrightarrow> (\<exists>c. (dealer, c) \<in> set dzw \<and> decay_counter d c \<noteq> [])"
    unfolding in_decay_dealers by blast
  also have "\<dots> \<longleftrightarrow> (\<exists>c zone w. (dealer, c) \<in> set dzw \<and> (zone, w) \<in> set c
                         \<and> \<not> w * d < 1 / 1000000)"
    unfolding decay_counter_nonempty by blast
  finally show ?thesis .
qed

section \<open>The two worked scenarios, evaluated\<close>

lemmas wheel_eval = distance_clockwise_def distance_anticlockwise_def index_on_wheel_def
  wheel_sequence_def get_spin_direction_def py_getitem_def

lemmas add_spin_eval = add_spin_def apply_decay_def record_number_def record_zone_def
  record_distance_def get_color_def red_numbers_def black_numbers_def find_zone_def
  wheel_zones_def deque_append_def

lemmas predict_eval = predict_next_top_n_def distance_predictions_def most_common_def
  py_div_def dealer_zone_lookup_def dealer_lines_def

lemma spin_0: "add_spin (RoulettePredictor 200 1) 0 None = (None, after_0)"
  by (simp add: RoulettePredictor_def after_0_def add_spin_eval wheel_eval)

lemma spin_0_32: "add_spin after_0 32 None = (None, after_0_32)"
  by (simp add: after_0_def after_0_32_def add_spin_eval wheel_eval)

lemma spin_0_32_15: "add_spin after_0_32 15 None = (None, after_0_32_15)"
  by (simp add: after_0_32_def after_0_32_15_def add_spin_eval wheel_eval fun_eq_iff)

lemma run_0: "add_spins (RoulettePredictor 200 1) [(0, None)] = after_0"
  by (simp add: spin_0)

lemma run_0_32: "add_spins (RoulettePredictor 200 1) [(0, None), (32, None)] = after_0_32"
  by (simp add: spin_0 spin_0_32)

lemma run_0_32_15:
  "add_spins (RoulettePredictor 200 1) [(0, None), (32, None), (15, None)] = after_0_32_15"
  by (simp add: spin_0 spin_0_32 spin_0_32_15)

lemma roulette_run_0_32_15:
  "fst (roulette_predict_next_top_n (roulette_add_spins roulette_RoulettePredictor [0, 32, 15]) 15)
     = Inr \<lparr> roulette_report_spin_number = 4, roulette_report_direction = Anticlockwise,
             roulette_report_n = 15, roulette_report_results = [(19, 36, 1)] \<rparr>"
  by (simp add: roulette_RoulettePredictor_def roulette_add_spin_def
      roulette_predict_next_top_n_def wheel_eval most_common_def py_div_def)

lemma run_0_32_15_report:
  "fst (predict_next_top_n after_0_32_15 15 None)
     = Inr \<lparr> report_spin_number = 4, report_direction = Anticlockwise,
             report_distances = [(19, 36, 1)],
             report_numbers = [(0, 1, 1 / 3), (32, 1, 1 / 3), (15, 1, 1 / 3)],
             report_colors = [(Green, 1 / 3), (Red, 1 / 3), (Black, 1 / 3)],
             report_zones = [(1, 3, 1)], report_dealer = None \<rparr>"
  by (simp add: after_0_32_15_def predict_eval wheel_eval)

section \<open>A dealer table that decays away\<close>

lemma add_spins_no_dealer_tables:
  "dealer_zone_weights (add_spins self (replicate k (number, None)))
     = (decay_dealers (decay self) ^^ k) (dealer_zone_weights self)"
proof (induction k arbitrary: self)
  case 0
  then show ?case by simp
next
  case (Suc k)
  have "dealer_zone_weights (add_spins self (replicate (Suc k) (number, None)))
      = dealer_zone_weights (add_spins (snd (add_spin self number None)) (replicate k (number, None)))"
    by simp
  also have "\<dots> = (decay_dealers (decay self) ^^ k)
        (decay_dealers (decay self) (dealer_zone_weights self))"
    by (simp add: Suc.IH add_spin_decay add_spin_dealer_tables split: option.splits)
  also have "\<dots> = (decay_dealers (decay self) ^^ Suc k) (dealer_zone_weights self)"
    by (simp add: funpow_swap1)
  finally show ?case .
qed

lemma decay_single_entry:
  assumes "0 \<le> d" and "d \<le> 1" and "0 \<le> w" and "\<not> w * d ^ k < 1 / 1000000"
  shows "(decay_dealers d ^^ k) [(a, [(z, w)])] = [(a, [(z, w * d ^ k)])]"
  using assms(4)
proof (induction k)
  case 0
  then show ?case by simp
next
  case (Suc k)
  have "w * d ^ Suc k \<le> w * d ^ k"
  proof -
    have "d ^ Suc k \<le> d ^ k" using assms(1,2) by (simp add: mult_left_le_one_le)
    then show ?thesis using assms(3) by (rule mult_left_mono)
  qed
  with Suc.prems have keep: "\<not> w * d ^ k < 1 / 1000000" by linarith
  have eq: "w * d ^ Suc k = w * d ^ k * d" by (simp add: algebra_simps)
  from Suc.prems have nb: "\<not> w * d ^ k * d < 1 / 1000000" unfolding eq .
  have "(decay_dealers d ^^ Suc k) [(a, [(z, w)])]
      = decay_dealers d ((decay_dealers d ^^ k) [(a, [(z, w)])])"
    by simp
  also have "\<dots> = decay_dealers d [(a, [(z, w * d ^ k)])]"
    by (simp only: Suc.IH [OF keep])
  also have "\<dots> = [(a, [(z, w * d ^ k * d)])]"
    using nb by simp
  finally show ?case by (simp only: eq)
qed

lemma decay_131_kept: "\<not> (1::real) * (9 / 10) ^ 131 < 1 / 1000000"
  by (simp add: power_divide)

lemma decay_132_pruned: "(1::real) * (9 / 10) ^ 131 * (9 / 10) < 1 / 1000000"
  by (simp add: power_divide)

lemma spin_0_dealer_A: "add_spin (RoulettePredictor 200 (9 / 10)) 0 (Some ''A'') = (None,
     \<lparr> spins = [(0, Some ''A'')], max_history = 200, decay = 9 / 10,
       distance_freq = (\<lambda>d. []),
       number_weights = [(0, 1)], color_weights = [(Green, 1)], zone_weights = [(1, 1)],
       dealer_zone_weights = [(''A'', [(1, 1)])], spin_history = [(0, Some ''A'')] \<rparr>)"
  by (simp add: RoulettePredictor_def add_spin_eval wheel_eval)

lemma spin_0_dealer_B: "add_spin (RoulettePredictor 200 (9 / 10)) 0 (Some ''B'') = (None,
     \<lparr> spins = [(0, Some ''B'')], max_history = 200, decay = 9 / 10,
       distance_freq = (\<lambda>d. []),
       number_weights = [(0, 1)], color_weights = [(Green, 1)], zone_weights = [(1, 1)],
       dealer_zone_weights = [(''B'', [(1, 1)])], spin_history = [(0, Some ''B'')] \<rparr>)"
  by (simp add: RoulettePredictor_def add_spin_eval wheel_eval)

lemma dealer_B_then_A:
  "map_of (dealer_zone_weights
       (add_spins (RoulettePredictor 200 (9 / 10)) [(0, Some ''B'')])) ''B'' = Some [(1, 1)]"
  "map_of (dealer_zone_weights
       (snd (add_spin (add_spins (RoulettePredictor 200 (9 / 10)) [(0, Some ''B'')])
               0 (Some ''A'')))) ''B'' = Some [(1, 9 / 10)]"
  by (simp_all add: spin_0_dealer_B add_spin_dealer_tables find_zone_def wheel_zones_def)

section \<open>Claims about the wheel geometry\<close>

text \<open>
  C7. For all wheel positions \<open>a\<close>, \<open>b\<close> in \<open>[0,36]\<close>: both distance functions
  return (they do not raise), the clockwise distance is \<open>(37 - anticlockwise distance) mod 37\<close>,
  the clockwise distance from a position to itself is 0, and both results are integers
  in \<open>[0,36]\<close>.
\<close>

theorem distance_clockwise_anticlockwise:
  assumes "0 \<le> a" and "a \<le> 36" and "0 \<le> b" and "b \<le> 36"
  shows "\<exists>c ac. distance_clockwise a b = Inr c \<and> distance_anticlockwise a b = Inr ac
           \<and> c = (37 - ac) mod 37
           \<and> distance_clockwise a a = Inr 0
           \<and> 0 \<le> c \<and> c \<le> 36 \<and> 0 \<le> ac \<and> ac \<le> 36"
proof -
  from index_on_wheel_valid [OF assms(1,2)] obtain i
    where i: "index_on_wheel a = Inr i" "0 \<le> i" "i < 37" by blast
  from index_on_wheel_valid [OF assms(3,4)] obtain j
    where j: "index_on_wheel b = Inr j" "0 \<le> j" "j < 37" by blast
  have rel: "(j - i) mod 37 = (37 - (i - j) mod 37) mod 37"
    by (rule mod_37_reverse)
  have rng: "0 \<le> (j - i) mod 37" "(j - i) mod 37 \<le> 36"
            "0 \<le> (i - j) mod 37" "(i - j) mod 37 \<le> 36"
    by simp_all
  show ?thesis
    using i(1) j(1) rel rng
    by (simp add: distance_clockwise_def distance_anticlockwise_def length_wheel_sequence)
qed

theorem distance_clockwise_anticlockwise_witness:
  "distance_clockwise 0 32 = Inr 1 \<and> distance_anticlockwise 0 32 = Inr 36
     \<and> (1::int) = (37 - 36) mod 37 \<and> distance_clockwise 0 0 = Inr 0"
proof -
  have "\<exists>c ac. distance_clockwise 0 32 = Inr c \<and> distance_anticlockwise 0 32 = Inr ac
           \<and> c = (37 - ac) mod 37
           \<and> distance_clockwise 0 0 = Inr 0
           \<and> 0 \<le> c \<and> c \<le> 36 \<and> 0 \<le> ac \<and> ac \<le> 36"
    using distance_clockwise_anticlockwise [of 0 32] by simp
  then show ?thesis
    by (simp add: distance_clockwise_def distance_anticlockwise_def index_on_wheel_def
        wheel_sequence_def)
qed

section \<open>Claims about the two worked scenarios\<close>

text \<open>
  C1, as the code has it. Starting from a fresh predictor with decay factor 1.0, both
  \<open>add_spin(0)\<close> and \<open>add_spin(32)\<close> return; the direction of spin 2 is anticlockwise;
  the anticlockwise distance from 0 to 32 is 36 (not 1: 0 is at index 0 and 32 at index 1,
  and the distance is \<open>(0 - 1) mod 37\<close>); the anticlockwise table holds exactly the entry
  36 with weight 1 and the clockwise table is empty; the direction of spin 3 is clockwise,
  and \<open>predict_next_top_n\<close>, for every \<open>n\<close> and dealer, answers that there is no distance
  data for the clockwise direction and leaves the state as it was.
\<close>

theorem scenario_0_32:
  "fst (add_spin (RoulettePredictor 200 1) 0 None) = None
   \<and> fst (add_spin (add_spins (RoulettePredictor 200 1) [(0, None)]) 32 None) = None
   \<and> get_spin_direction 2 = Anticlockwise
   \<and> distance_anticlockwise 0 32 = Inr 36
   \<and> distance_freq (add_spins (RoulettePredictor 200 1) [(0, None), (32, None)]) Anticlockwise
        = [(36, 1)]
   \<and> distance_freq (add_spins (RoulettePredictor 200 1) [(0, None), (32, None)]) Clockwise = []
   \<and> get_spin_direction 3 = Clockwise
   \<and> predict_next_top_n (add_spins (RoulettePredictor 200 1) [(0, None), (32, None)]) n dealer
        = (Inl (NoDistanceData Clockwise),
           add_spins (RoulettePredictor 200 1) [(0, None), (32, None)])"
proof -
  have calls: "fst (add_spin (RoulettePredictor 200 1) 0 None) = None"
    "fst (add_spin (add_spins (RoulettePredictor 200 1) [(0, None)]) 32 None) = None"
    by (simp_all add: run_0 spin_0 spin_0_32)
  have geometry: "get_spin_direction 2 = Anticlockwise" "distance_anticlockwise 0 32 = Inr 36"
    "get_spin_direction 3 = Clockwise"
    by (simp_all add: wheel_eval)
  have tables: "distance_freq after_0_32 Anticlockwise = [(36, 1)]"
    "distance_freq after_0_32 Clockwise = []"
    by (simp_all add: after_0_32_def)
  have prediction:
    "predict_next_top_n after_0_32 n dealer = (Inl (NoDistanceData Clockwise), after_0_32)"
    by (simp add: after_0_32_def predict_next_top_n_def get_spin_direction_def)
  from calls geometry tables prediction show ?thesis
    by (simp only: run_0_32 simp_thms)
qed

text \<open>
  C1 as the claim states it fails: the anticlockwise distance from 0 to 32 is not 1, and
  the anticlockwise table after the spins 0 and 32 is not the single entry 1 with count 1
  (it has no entry under the key 1 at all).
\<close>

theorem scenario_0_32_counterexample:
  "distance_anticlockwise 0 32 \<noteq> Inr 1
   \<and> distance_freq (add_spins (RoulettePredictor 200 1) [(0, None), (32, None)]) Anticlockwise
        \<noteq> [(1, 1)]
   \<and> counter_get
        (distance_freq (add_spins (RoulettePredictor 200 1) [(0, None), (32, None)]) Anticlockwise)
        1 = 0"
proof -
  have "distance_anticlockwise 0 32 \<noteq> Inr 1"
    by (simp add: wheel_eval)
  moreover have "distance_freq after_0_32 Anticlockwise \<noteq> [(1, 1)]"
    "counter_get (distance_freq after_0_32 Anticlockwise) 1 = 0"
    by (simp_all add: after_0_32_def)
  ultimately show ?thesis
    by (simp only: run_0_32 simp_thms)
qed

text \<open>
  C6. Starting from a fresh predictor with decay factor 1.0, after the spins 0, 32 and 15:
  the direction of spin 3 is clockwise and the clockwise distance from 32 to 15 (which is
  1) is stored in the clockwise table; the anticlockwise table still holds exactly the one
  entry of spin 2; the direction of spin 4 is anticlockwise, and \<open>predict_next_top_n\<close>
  returns a report with a single distance-based candidate of probability 1 (100%): the
  number two slots of the stored distance anticlockwise of 15, that is the number at index
  \<open>(index of 15 - stored distance) mod 37\<close>. The report does not depend on the clockwise
  table: it is the same whatever that table is replaced with.
\<close>

theorem scenario_0_32_15:
  "fst (add_spin (add_spins (RoulettePredictor 200 1) [(0, None), (32, None)]) 15 None) = None
   \<and> get_spin_direction 3 = Clockwise
   \<and> distance_clockwise 32 15 = Inr 1
   \<and> distance_freq (add_spins (RoulettePredictor 200 1) [(0, None), (32, None), (15, None)])
        Clockwise = [(1, 1)]
   \<and> distance_freq (add_spins (RoulettePredictor 200 1) [(0, None), (32, None), (15, None)])
        Anticlockwise
        = distance_freq (add_spins (RoulettePredictor 200 1) [(0, None), (32, None)])
            Anticlockwise
   \<and> distance_freq (add_spins (RoulettePredictor 200 1) [(0, None), (32, None), (15, None)])
        Anticlockwise = [(36, 1)]
   \<and> get_spin_direction 4 = Anticlockwise
   \<and> (\<exists>r. fst (predict_next_top_n
                 (add_spins (RoulettePredictor 200 1) [(0, None), (32, None), (15, None)])
                 15 None) = Inr r
          \<and> report_spin_number r = 4
          \<and> report_direction r = Anticlockwise
          \<and> report_distances r = [(19, 36, 1)])
   \<and> index_on_wheel 15 = Inr 2
   \<and> py_getitem wheel_sequence ((2 - 36) mod 37) = Inr 19
   \<and> fst (predict_next_top_n
            ((add_spins (RoulettePredictor 200 1) [(0, None), (32, None), (15, None)])
               \<lparr> distance_freq :=
                    (distance_freq
                       (add_spins (RoulettePredictor 200 1) [(0, None), (32, None), (15, None)]))
                    (Clockwise := c) \<rparr>)
            15 None)
        = fst (predict_next_top_n
                 (add_spins (RoulettePredictor 200 1) [(0, None), (32, None), (15, None)])
                 15 None)"
proof -
  have call: "fst (add_spin after_0_32 15 None) = None"
    by (simp add: spin_0_32_15)
  have geometry: "get_spin_direction 3 = Clockwise" "distance_clockwise 32 15 = Inr 1"
    "get_spin_direction 4 = Anticlockwise" "index_on_wheel 15 = Inr 2"
    "py_getitem wheel_sequence ((2 - 36) mod 37) = Inr 19"
    by (simp_all add: wheel_eval)
  have tables: "distance_freq after_0_32_15 Clockwise = [(1, 1)]"
    "distance_freq after_0_32_15 Anticlockwise = distance_freq after_0_32 Anticlockwise"
    "distance_freq after_0_32_15 Anticlockwise = [(36, 1)]"
    by (simp_all add: after_0_32_def after_0_32_15_def)
  have prediction:
    "\<exists>r. fst (predict_next_top_n after_0_32_15 15 None) = Inr r
          \<and> report_spin_number r = 4
          \<and> report_direction r = Anticlockwise
          \<and> report_distances r = [(19, 36, 1)]"
    by (simp add: after_0_32_15_def predict_eval wheel_eval)
  have frame:
    "fst (predict_next_top_n
            (after_0_32_15 \<lparr> distance_freq := (distance_freq after_0_32_15)(Clockwise := c) \<rparr>)
            15 None)
       = fst (predict_next_top_n after_0_32_15 15 None)"
    by (simp add: after_0_32_15_def predict_eval wheel_eval)
  from call geometry tables prediction frame show ?thesis
    by (simp only: run_0_32 run_0_32_15 simp_thms)
qed

section \<open>Claims about predictions\<close>

text \<open>
  C8. For every \<open>n\<close> and every dealer argument, \<open>predict_next_top_n\<close> on a predictor
  with no recorded spin answers "No spins recorded yet." (NoHistory) and leaves the
  predictor state unchanged; so does the predictor of roulette.py.
\<close>

theorem predict_without_history:
  assumes "spins self = []" and "roulette_spins rself = []"
  shows "predict_next_top_n self n dealer = (Inl NoHistory, self)
       \<and> roulette_predict_next_top_n rself m = (Inl NoHistory, rself)"
  using assms by (simp add: predict_next_top_n_def roulette_predict_next_top_n_def Let_def)

theorem predict_without_history_witness:
  "spins (RoulettePredictor 200 (9/10)) = [] \<and> roulette_spins roulette_RoulettePredictor = []
   \<and> predict_next_top_n (RoulettePredictor 200 (9/10)) 15 (Some ''dealer1'')
        = (Inl NoHistory, RoulettePredictor 200 (9/10))
   \<and> roulette_predict_next_top_n roulette_RoulettePredictor 15
        = (Inl NoHistory, roulette_RoulettePredictor)"
proof -
  have a: "spins (RoulettePredictor 200 (9/10)) = []" by (simp add: RoulettePredictor_def)
  have b: "roulette_spins roulette_RoulettePredictor = []"
    by (simp add: roulette_RoulettePredictor_def)
  from predict_without_history [OF a b, of 15 "Some ''dealer1''" 15] a b
  show ?thesis by simp
qed

text \<open>
  C9. \<open>predict_next_top_n\<close> is read-only: in every predictor state (reachable or not) the
  state after the call is the state before it, no table and no history changed, whatever
  the call returns; so a second call with the same arguments returns the same report and
  leaves the same state. The same holds for the predictor of roulette.py.
\<close>

theorem predict_read_only:
  "snd (predict_next_top_n self n dealer) = self
   \<and> predict_next_top_n (snd (predict_next_top_n self n dealer)) n dealer
        = predict_next_top_n self n dealer
   \<and> snd (roulette_predict_next_top_n rself m) = rself
   \<and> roulette_predict_next_top_n (snd (roulette_predict_next_top_n rself m)) m
        = roulette_predict_next_top_n rself m"
  by (simp add: predict_state roulette_predict_state)

text \<open>
  C10. Whenever \<open>predict_next_top_n\<close> returns a report, every candidate number of its
  distance-based list is a wheel position in \<open>[0,36]\<close> and the list has at most \<open>n\<close>
  entries (none when \<open>n \<le> 0\<close>); the lookup in the 37-entry wheel ordering is never out
  of range, so the call never raises IndexError. The same holds for the predictor of
  roulette.py.
\<close>

theorem distance_candidates_on_wheel:
  "(\<forall>r. fst (predict_next_top_n self n dealer) = Inr r \<longrightarrow>
        (\<forall>(num, d, p) \<in> set (report_distances r). 0 \<le> num \<and> num \<le> 36)
        \<and> length (report_distances r) \<le> nat n)
   \<and> fst (predict_next_top_n self n dealer) \<noteq> Inl IndexError
   \<and> (\<forall>r. fst (roulette_predict_next_top_n rself m) = Inr r \<longrightarrow>
        (\<forall>(num, d, p) \<in> set (roulette_report_results r). 0 \<le> num \<and> num \<le> 36)
        \<and> length (roulette_report_results r) \<le> nat m)
   \<and> fst (roulette_predict_next_top_n rself m) \<noteq> Inl IndexError"
proof -
  have a: "(\<forall>(num, d, p) \<in> set (report_distances r). 0 \<le> num \<and> num \<le> 36)
        \<and> length (report_distances r) \<le> nat n"
    if "fst (predict_next_top_n self n dealer) = Inr r" for r
  proof -
    from that obtain ps where
      "distance_predictions (spins self)
          (distance_freq self (get_spin_direction (length (spins self) + 1)))
          (get_spin_direction (length (spins self) + 1)) n = Inr ps"
      and "report_distances r = ps"
      by (auto simp add: predict_next_top_n_def Let_def
          split: if_splits sum.splits prod.splits)
    with distance_predictions_valid show ?thesis by blast
  qed
  have b: "(\<forall>(num, d, p) \<in> set (roulette_report_results r). 0 \<le> num \<and> num \<le> 36)
        \<and> length (roulette_report_results r) \<le> nat m"
    if "fst (roulette_predict_next_top_n rself m) = Inr r" for r
  proof -
    from that obtain li tot where
      "predict_distances (get_spin_direction (length (roulette_spins rself) + 1)) li tot
         (map (\<lambda>(distance, count). (distance, real_of_int count))
            (most_common m (roulette_distance_freq rself
               (get_spin_direction (length (roulette_spins rself) + 1)))))
         = Inr (roulette_report_results r)"
      by (auto simp add: roulette_predict_next_top_n_def Let_def
          split: if_splits sum.splits)
    from predict_distances_valid [OF this]
      length_most_common [of m "roulette_distance_freq rself
               (get_spin_direction (length (roulette_spins rself) + 1))"]
    show ?thesis by simp
  qed
  from a b predict_no_IndexError roulette_predict_no_IndexError show ?thesis by blast
qed

text \<open>An instance of C10: the report after the spins 0, 32 and 15, for both predictors.\<close>

theorem distance_candidates_on_wheel_witness:
  "(\<exists>r. fst (predict_next_top_n after_0_32_15 15 None) = Inr r
        \<and> report_distances r = [(19, 36, 1)]
        \<and> length (report_distances r) \<le> nat 15)
   \<and> (\<exists>r. fst (roulette_predict_next_top_n
                  (roulette_add_spins roulette_RoulettePredictor [0, 32, 15]) 15) = Inr r
        \<and> roulette_report_results r = [(19, 36, 1)]
        \<and> length (roulette_report_results r) \<le> nat 15)
   \<and> (0::int) \<le> 19 \<and> (19::int) \<le> 36"
  using distance_candidates_on_wheel
          [of after_0_32_15 15 None "roulette_add_spins roulette_RoulettePredictor [0, 32, 15]" 15]
        run_0_32_15_report roulette_run_0_32_15
  by simp

section \<open>Claims about decay\<close>

text \<open>
  C4. After one decay pass (\<open>_apply_decay\<close>, the first statement of every \<open>add_spin\<close>)
  with decay factor \<open>d\<close>, in each distance table (both directions), the number table,
  the colour table, the zone table and every dealer-zone table: every entry that survives
  has its weight before the pass multiplied by \<open>d\<close>, no entry with a weight below
  \<^verbatim>\<open>1e-6\<close> remains, and every entry whose multiplied weight is not below \<^verbatim>\<open>1e-6\<close>
  survives. A dealer-zone table that is left is not empty and is the decayed table of the
  same dealer, and a dealer's table with a surviving entry is left.
\<close>

theorem decay_pass:
  "decayed_from (decay self) (distance_freq self direction)
      (distance_freq (apply_decay self) direction)
   \<and> decayed_from (decay self) (number_weights self) (number_weights (apply_decay self))
   \<and> decayed_from (decay self) (color_weights self) (color_weights (apply_decay self))
   \<and> decayed_from (decay self) (zone_weights self) (zone_weights (apply_decay self))
   \<and> (\<forall>(dealer, c') \<in> set (dealer_zone_weights (apply_decay self)).
         c' \<noteq> [] \<and> (\<exists>c. (dealer, c) \<in> set (dealer_zone_weights self)
                           \<and> decayed_from (decay self) c c'))
   \<and> (\<forall>(dealer, c) \<in> set (dealer_zone_weights self).
         (\<exists>k w. (k, w) \<in> set c \<and> \<not> w * decay self < 1 / 1000000) \<longrightarrow>
         (dealer, decay_counter (decay self) c) \<in> set (dealer_zone_weights (apply_decay self)))"
proof -
  have tables: "distance_freq (apply_decay self) direction
        = decay_counter (decay self) (distance_freq self direction)"
    "number_weights (apply_decay self) = decay_counter (decay self) (number_weights self)"
    "color_weights (apply_decay self) = decay_counter (decay self) (color_weights self)"
    "zone_weights (apply_decay self) = decay_counter (decay self) (zone_weights self)"
    "dealer_zone_weights (apply_decay self)
        = decay_dealers (decay self) (dealer_zone_weights self)"
    by (simp_all add: apply_decay_def)
  have dealers1: "\<forall>(dealer, c') \<in> set (decay_dealers (decay self) (dealer_zone_weights self)).
         c' \<noteq> [] \<and> (\<exists>c. (dealer, c) \<in> set (dealer_zone_weights self)
                           \<and> decayed_from (decay self) c c')"
  proof (clarify)
    fix dealer c'
    assume "(dealer, c') \<in> set (decay_dealers (decay self) (dealer_zone_weights self))"
    then obtain c where c: "(dealer, c) \<in> set (dealer_zone_weights self)"
      "c' = decay_counter (decay self) c" "c' \<noteq> []"
      by (auto simp add: in_decay_dealers)
    from c(2) have "decayed_from (decay self) c c'"
      by (simp add: decayed_from_decay_counter)
    with c(1,3) show "c' \<noteq> [] \<and> (\<exists>c. (dealer, c) \<in> set (dealer_zone_weights self)
                           \<and> decayed_from (decay self) c c')"
      by blast
  qed
  have dealers2: "\<forall>(dealer, c) \<in> set (dealer_zone_weights self).
         (\<exists>k w. (k, w) \<in> set c \<and> \<not> w * decay self < 1 / 1000000) \<longrightarrow>
         (dealer, decay_counter (decay self) c)
            \<in> set (decay_dealers (decay self) (dealer_zone_weights self))"
  proof (clarify)
    fix dealer c k w
    assume in_dzw: "(dealer, c) \<in> set (dealer_zone_weights self)"
      and in_c: "(k, w) \<in> set c" and keep: "\<not> w * decay self < 1 / 1000000"
    from in_c keep have "(k, w * decay self) \<in> set (decay_counter (decay self) c)"
      by (auto simp add: in_decay_counter)
    then have "decay_counter (decay self) c \<noteq> []" by auto
    with in_dzw show "(dealer, decay_counter (decay self) c)
            \<in> set (decay_dealers (decay self) (dealer_zone_weights self))"
      unfolding in_decay_dealers by blast
  qed
  from dealers1 dealers2 show ?thesis
    by (simp only: tables decayed_from_decay_counter simp_thms)
qed

theorem decay_pass_witness:
  "number_weights (apply_decay decay_example) = [(3, 9 / 10)]
   \<and> (3, 1) \<in> set (number_weights decay_example) \<and> (9 / 10 :: real) = 1 * decay decay_example
   \<and> \<not> (9 / 10 :: real) < 1 / 1000000
   \<and> distance_freq (apply_decay decay_example) Anticlockwise = [(2, 9 / 10)]
   \<and> color_weights (apply_decay decay_example) = [(Red, 9 / 10)]
   \<and> zone_weights (apply_decay decay_example) = [(8, 9 / 10)]
   \<and> dealer_zone_weights (apply_decay decay_example) = [(''B'', [(8, 9 / 10)])]
   \<and> decayed_from (9 / 10) [(17, 1 / 1000000), (3, 1)] [(3 :: int, 9 / 10)]"
proof -
  have ev: "number_weights (apply_decay decay_example) = [(3, 9 / 10)]"
    "number_weights decay_example = [(17, 1 / 1000000), (3, 1)]"
    "decay decay_example = 9 / 10"
    "distance_freq (apply_decay decay_example) Anticlockwise = [(2, 9 / 10)]"
    "color_weights (apply_decay decay_example) = [(Red, 9 / 10)]"
    "zone_weights (apply_decay decay_example) = [(8, 9 / 10)]"
    "dealer_zone_weights (apply_decay decay_example) = [(''B'', [(8, 9 / 10)])]"
    by (simp_all add: decay_example_def apply_decay_def)
  from decay_pass [of decay_example Anticlockwise]
  have "decayed_from (decay decay_example) (number_weights decay_example)
          (number_weights (apply_decay decay_example))"
    by blast
  then have "decayed_from (9 / 10) [(17, 1 / 1000000), (3, 1)] [(3 :: int, 9 / 10)]"
    by (simp only: ev)
  with ev show ?thesis by simp
qed

section \<open>Claims about the dealer tables\<close>

text \<open>
  C2, as the code has it. \<open>predict_next_top_n\<close> never changes the dealer-to-table
  mapping. After \<open>add_spin\<close> a dealer has a table exactly when it had a table with an
  entry whose weight, multiplied by the decay factor, is not below \<^verbatim>\<open>1e-6\<close>, or when
  the spin itself was recorded for that dealer (a non-empty name) at a number that has a
  zone. So the table of an observed dealer stays as long as one of its entries survives
  the decay pass, and it is deleted by the decay pass once every entry has been pruned.
\<close>

theorem dealer_table_kept_iff:
  "(dealer \<in> fst ` set (dealer_zone_weights (snd (add_spin self number recorded)))
      \<longleftrightarrow> (\<exists>c zone w. (dealer, c) \<in> set (dealer_zone_weights self) \<and> (zone, w) \<in> set c
                      \<and> \<not> w * decay self < 1 / 1000000)
          \<or> (recorded = Some dealer \<and> dealer \<noteq> [] \<and> find_zone number \<noteq> None))
   \<and> dealer_zone_weights (snd (predict_next_top_n self n asked)) = dealer_zone_weights self"
proof -
  let ?D = "decay_dealers (decay self) (dealer_zone_weights self)"
  have keys: "fst ` set (dealer_zone_weights (snd (add_spin self number recorded)))
      = (if find_zone number \<noteq> None \<and> truthy recorded
         then insert (the recorded) (fst ` set ?D) else fst ` set ?D)"
    by (cases recorded; cases "find_zone number")
       (simp_all add: add_spin_dealer_tables keys_dealer_incr)
  have "dealer \<in> fst ` set (dealer_zone_weights (snd (add_spin self number recorded)))
      \<longleftrightarrow> dealer \<in> fst ` set ?D
          \<or> (recorded = Some dealer \<and> dealer \<noteq> [] \<and> find_zone number \<noteq> None)"
    unfolding keys by (cases recorded) auto
  then show ?thesis
    by (simp only: keys_decay_dealers_iff predict_state simp_thms)
qed

theorem dealer_table_kept_iff_witness:
  "''A'' \<in> fst ` set (dealer_zone_weights
       (snd (add_spin (snd (add_spin (RoulettePredictor 200 (9 / 10)) 0 (Some ''A''))) 0 None)))"
proof -
  let ?s = "snd (add_spin (RoulettePredictor 200 (9 / 10)) 0 (Some ''A''))"
  have "(''A'', [(1, 1)]) \<in> set (dealer_zone_weights ?s)" "\<not> (1::real) * decay ?s < 1 / 1000000"
    by (simp_all add: spin_0_dealer_A)
  then have "\<exists>c zone w. (''A'', c) \<in> set (dealer_zone_weights ?s) \<and> (zone, w) \<in> set c
                      \<and> \<not> w * decay ?s < 1 / 1000000"
    by (intro exI [of _ "[(1, 1)]"] exI [of _ "1::nat"] exI [of _ "1::real"]) simp
  with dealer_table_kept_iff [of "''A''" ?s 0 None 15 None] show ?thesis by blast
qed

text \<open>
  C2 as the claim states it fails: with the default decay factor 0.9, dealer A is observed
  at the first spin and has a table; after 132 further spins recorded with no dealer the
  weight of its only entry, \<open>0.9 ^ 132\<close>, is below \<^verbatim>\<open>1e-6\<close>, the entry is pruned and
  the key A is deleted from the mapping.
\<close>

theorem dealer_table_removed_counterexample:
  "''A'' \<in> fst ` set (dealer_zone_weights
         (add_spins (RoulettePredictor 200 (9 / 10)) [(0, Some ''A'')]))
   \<and> ''A'' \<notin> fst ` set (dealer_zone_weights
         (add_spins (RoulettePredictor 200 (9 / 10)) ((0, Some ''A'') # replicate 132 (0, None))))"
proof -
  let ?s = "snd (add_spin (RoulettePredictor 200 (9 / 10)) 0 (Some ''A''))"
  have tab: "dealer_zone_weights ?s = [(''A'', [(1, 1)])]" and dec: "decay ?s = 9 / 10"
    by (simp_all add: spin_0_dealer_A)
  have "dealer_zone_weights (add_spins ?s (replicate 132 (0, None)))
      = (decay_dealers (9 / 10) ^^ 132) [(''A'', [(1, 1)])]"
    by (simp only: add_spins_no_dealer_tables tab dec)
  also have "\<dots> = decay_dealers (9 / 10) ((decay_dealers (9 / 10) ^^ 131) [(''A'', [(1, 1)])])"
  proof -
    have "(132::nat) = Suc 131" by simp
    then show ?thesis by (simp only: funpow.simps o_apply)
  qed
  also have "\<dots> = decay_dealers (9 / 10) [(''A'', [(1, 1 * (9 / 10) ^ 131)])]"
    using decay_single_entry [of "9 / 10" 1 131 "''A''" 1] decay_131_kept by simp
  also have "\<dots> = []"
    using decay_132_pruned by simp
  finally have gone: "dealer_zone_weights (add_spins ?s (replicate 132 (0, None))) = []" .
  have "add_spins (RoulettePredictor 200 (9 / 10)) ((0, Some ''A'') # replicate 132 (0, None))
      = add_spins ?s (replicate 132 (0, None))"
    by simp
  with gone have "dealer_zone_weights
      (add_spins (RoulettePredictor 200 (9 / 10)) ((0, Some ''A'') # replicate 132 (0, None))) = []"
    by simp
  moreover have "dealer_zone_weights (add_spins (RoulettePredictor 200 (9 / 10)) [(0, Some ''A'')])
      = [(''A'', [(1, 1)])]"
    by (simp add: tab)
  ultimately show ?thesis by simp
qed

text \<open>
  C3, as the code has it. For every predictor state whose dealer dictionary has distinct
  keys, every number and every dealer A, \<open>add_spin\<close> with dealer A changes the dealer-zone
  table of another dealer B only through the decay pass that starts every \<open>add_spin\<close>:
  afterwards B's table is B's table with every weight multiplied by the decay factor and
  the entries below \<^verbatim>\<open>1e-6\<close> pruned, and B has no table when none is left (the same
  table as after \<open>_apply_decay\<close> alone); nothing is recorded in it. It is unchanged when
  the decay factor is 1 and its weights are not below \<^verbatim>\<open>1e-6\<close>. The report of
  \<open>predict_next_top_n\<close> with dealer \<open>None\<close> does not depend on the dealer-zone tables.
\<close>

theorem dealer_isolation_up_to_decay:
  assumes "a \<noteq> b" and "distinct (map fst (dealer_zone_weights self))"
  shows "map_of (dealer_zone_weights (snd (add_spin self number (Some a)))) b
           = (case map_of (dealer_zone_weights self) b of
                None \<Rightarrow> None
              | Some c \<Rightarrow> if decay_counter (decay self) c = [] then None
                          else Some (decay_counter (decay self) c))
       \<and> map_of (dealer_zone_weights (snd (add_spin self number (Some a)))) b
           = map_of (dealer_zone_weights (apply_decay self)) b
       \<and> (decay self = 1
            \<and> (\<forall>c. map_of (dealer_zone_weights self) b = Some c
                    \<longrightarrow> c \<noteq> [] \<and> (\<forall>(zone, w) \<in> set c. \<not> w < 1 / 1000000))
           \<longrightarrow> map_of (dealer_zone_weights (snd (add_spin self number (Some a)))) b
                 = map_of (dealer_zone_weights self) b)
       \<and> fst (predict_next_top_n (self\<lparr> dealer_zone_weights := dzw \<rparr>) n None)
           = fst (predict_next_top_n self n None)"
proof -
  let ?D = "decay_dealers (decay self) (dealer_zone_weights self)"
  have step: "map_of (dealer_zone_weights (snd (add_spin self number (Some a)))) b = map_of ?D b"
    using assms(1)
    by (cases "find_zone number") (simp_all add: add_spin_dealer_tables map_of_dealer_incr)
  have dec: "map_of ?D b
           = (case map_of (dealer_zone_weights self) b of
                None \<Rightarrow> None
              | Some c \<Rightarrow> if decay_counter (decay self) c = [] then None
                          else Some (decay_counter (decay self) c))"
    by (rule map_of_decay_dealers [OF assms(2)])
  have app: "dealer_zone_weights (apply_decay self) = ?D"
    by (simp add: apply_decay_def)
  have same: "map_of ?D b = map_of (dealer_zone_weights self) b"
    if one: "decay self = 1"
      and ok: "\<forall>c. map_of (dealer_zone_weights self) b = Some c
                    \<longrightarrow> c \<noteq> [] \<and> (\<forall>(zone, w) \<in> set c. \<not> w < 1 / 1000000)"
  proof (cases "map_of (dealer_zone_weights self) b")
    case None
    with dec show ?thesis by simp
  next
    case (Some c)
    with ok have ne: "c \<noteq> []" and big: "\<forall>(zone, w) \<in> set c. \<not> w < 1 / 1000000" by auto
    from big have "decay_counter 1 c = c" by (rule decay_counter_one)
    with dec Some ne one show ?thesis by simp
  qed
  have p1: "map_of (dealer_zone_weights (snd (add_spin self number (Some a)))) b
           = (case map_of (dealer_zone_weights self) b of
                None \<Rightarrow> None
              | Some c \<Rightarrow> if decay_counter (decay self) c = [] then None
                          else Some (decay_counter (decay self) c))"
    using step dec by simp
  have p2: "map_of (dealer_zone_weights (snd (add_spin self number (Some a)))) b
           = map_of (dealer_zone_weights (apply_decay self)) b"
    using step app by simp
  have p3: "decay self = 1
            \<and> (\<forall>c. map_of (dealer_zone_weights self) b = Some c
                    \<longrightarrow> c \<noteq> [] \<and> (\<forall>(zone, w) \<in> set c. \<not> w < 1 / 1000000))
           \<longrightarrow> map_of (dealer_zone_weights (snd (add_spin self number (Some a)))) b
                 = map_of (dealer_zone_weights self) b"
    using step same by simp
  have p4: "fst (predict_next_top_n (self\<lparr> dealer_zone_weights := dzw \<rparr>) n None)
           = fst (predict_next_top_n self n None)"
    by (rule predict_no_dealer_frame)
  from p1 p2 p3 p4 show ?thesis by (intro conjI)
qed

theorem dealer_isolation_up_to_decay_witness:
  "''A'' \<noteq> ''B''
   \<and> distinct (map fst (dealer_zone_weights
         (snd (add_spin (RoulettePredictor 200 (9 / 10)) 0 (Some ''B'')))))
   \<and> map_of (dealer_zone_weights
         (snd (add_spin (snd (add_spin (RoulettePredictor 200 (9 / 10)) 0 (Some ''B'')))
                 0 (Some ''A'')))) ''B''
       = Some [(1, 9 / 10)]"
proof -
  let ?s = "snd (add_spin (RoulettePredictor 200 (9 / 10)) 0 (Some ''B''))"
  have ne: "''A'' \<noteq> ''B''" by simp
  have dist: "distinct (map fst (dealer_zone_weights ?s))" by (simp add: spin_0_dealer_B)
  have val: "(case map_of (dealer_zone_weights ?s) ''B'' of
                None \<Rightarrow> None
              | Some c \<Rightarrow> if decay_counter (decay ?s) c = [] then None
                          else Some (decay_counter (decay ?s) c)) = Some [(1, 9 / 10)]"
    by (simp add: spin_0_dealer_B)
  from dealer_isolation_up_to_decay [OF ne dist, of 0]
  have "map_of (dealer_zone_weights (snd (add_spin ?s 0 (Some ''A'')))) ''B''
      = (case map_of (dealer_zone_weights ?s) ''B'' of
                None \<Rightarrow> None
              | Some c \<Rightarrow> if decay_counter (decay ?s) c = [] then None
                          else Some (decay_counter (decay ?s) c))"
    by blast
  with val ne dist show ?thesis by (simp only: simp_thms)
qed

text \<open>
  C3 as the claim states it fails: with the default decay factor 0.9, dealer B's table is
  \<open>{1: 1}\<close> after a spin at 0 recorded for B, and \<open>{1: 0.9}\<close> after the next spin at 0
  recorded for dealer A.
\<close>

theorem dealer_isolation_counterexample:
  "''A'' \<noteq> ''B''
   \<and> map_of (dealer_zone_weights
       (add_spins (RoulettePredictor 200 (9 / 10)) [(0, Some ''B'')])) ''B'' = Some [(1, 1)]
   \<and> map_of (dealer_zone_weights
       (snd (add_spin (add_spins (RoulettePredictor 200 (9 / 10)) [(0, Some ''B'')])
               0 (Some ''A'')))) ''B'' = Some [(1, 9 / 10)]
   \<and> map_of (dealer_zone_weights
       (snd (add_spin (add_spins (RoulettePredictor 200 (9 / 10)) [(0, Some ''B'')])
               0 (Some ''A'')))) ''B''
     \<noteq> map_of (dealer_zone_weights
       (add_spins (RoulettePredictor 200 (9 / 10)) [(0, Some ''B'')])) ''B''"
  using dealer_B_then_A by simp

end
